theory Spec2Isabelle
  imports Complex_Main
begin

section \<open>Configuration constants\<close>

text \<open>
  The module constants of \<^verbatim>\<open>main.py\<close>. A Python float is modelled as the real number
  it denotes. The arithmetic of the trailing-profit check, where a decision sits on a
  threshold of a computed ratio, rounds every operation as the floats do (\<open>fl\<close> below);
  the other procedures are read with exact arithmetic.
\<close>

definition LEVERAGE :: real where
  "LEVERAGE = 4"

definition POSITION_SIZE_PERCENT :: real where
  "POSITION_SIZE_PERCENT = 0.96"

definition MIN_ORDER_VALUE :: real where
  "MIN_ORDER_VALUE = 5"

definition STOP_LOSS_PERCENT :: real where
  "STOP_LOSS_PERCENT = 0.07"

definition TRAILING_PROFIT_DROP :: real where
  "TRAILING_PROFIT_DROP = 0.25"

definition REENTRY_THRESHOLD :: real where
  "REENTRY_THRESHOLD = 0.003"

definition MIN_PROFIT_FOR_TRAILING :: real where
  "MIN_PROFIT_FOR_TRAILING = 0.008"

definition CACHE_TTL :: real where
  "CACHE_TTL = 0.1"

section \<open>Data model\<close>

text \<open>
  \<^verbatim>\<open>position_tracker['side']\<close> only ever holds \<^verbatim>\<open>''\<close>, \<^verbatim>\<open>'long'\<close> or \<^verbatim>\<open>'short'\<close>;
  the empty string (falsy in Python) is \<open>Flat\<close>.
\<close>

datatype hold_side = Flat | Long | Short

text \<open>The \<^verbatim>\<open>side\<close> parameter of an order request: \<^verbatim>\<open>'buy'\<close> or \<^verbatim>\<open>'sell'\<close>.\<close>

datatype order_side = Buy | Sell

datatype py_exn = ZeroDivisionError | AttributeError | BadRequest

text \<open>How a procedure that returns nothing ends: it returns, or an exception leaves it.
  The globals keep whatever was written before the exception.\<close>

datatype completion = Returned | Raised py_exn

text \<open>The dictionary \<^verbatim>\<open>position_tracker\<close>. The key \<^verbatim>\<open>size\<close> is the field \<open>size_held\<close>.\<close>

record position_tracker =
  entry_price :: real
  side :: hold_side
  size_held :: real
  stop_loss_price :: real
  last_check :: real
  peak_profit_percent :: real
  temporarily_closed :: bool
  reentry_price :: real
  reentry_attempts :: int
  last_trailing_action :: real
  tradingview_active :: bool
  tv_position :: string

text \<open>The tuple \<^verbatim>\<open>(balance, price, (long_size, short_size))\<close> of \<^verbatim>\<open>get_cached_data\<close>.\<close>

type_synonym market_data = "real \<times> real \<times> real \<times> real"

text \<open>The dictionaries \<^verbatim>\<open>cache\<close> and \<^verbatim>\<open>last_webhook\<close>; \<open>None\<close> is Python's \<^verbatim>\<open>None\<close>.\<close>

record data_cache =
  cache_time :: real
  cache_data :: "market_data option"

record webhook_record =
  lw_time :: real
  lw_data :: "string option"

text \<open>
  One order request sent to the venue by \<^verbatim>\<open>place-order\<close>: its side, its size
  (\<^verbatim>\<open>str(int(size))\<close>), whether it is \<^verbatim>\<open>reduceOnly\<close>, and the \<^verbatim>\<open>is_reentry\<close>
  argument of the call that sent it (\<open>False\<close> for a close).
\<close>

record order =
  o_side :: order_side
  o_size :: int
  o_reduce_only :: bool
  o_is_reentry :: bool

text \<open>The module's globals, and the list of order requests sent so far, oldest first.\<close>

record state =
  tracker :: position_tracker
  cache :: data_cache
  last_webhook :: webhook_record
  orders :: "order list"

text \<open>
  Everything one procedure call observes from outside: the clock (\<^verbatim>\<open>time.time()\<close>) where
  the procedure itself, \<^verbatim>\<open>get_cached_data\<close> and \<^verbatim>\<open>open_position_market\<close> read it, what
  the venue answers to the three fetches of \<^verbatim>\<open>get_cached_data\<close>, whether a close
  request is answered with code 00000, the price \<^verbatim>\<open>open_position_market\<close> fetches, and
  whether its order request is answered with code 00000.
\<close>

record obs =
  t_now :: real
  t_fetch :: real
  v_balance :: real
  v_price :: real
  v_long_size :: real
  v_short_size :: real
  v_close_ok :: bool
  v_open_price :: real
  v_open_ok :: bool
  t_open :: real

definition init_state :: state where
  "init_state =
     \<lparr>tracker = \<lparr>entry_price = 0, side = Flat, size_held = 0, stop_loss_price = 0,
                 last_check = 0, peak_profit_percent = 0, temporarily_closed = False,
                 reentry_price = 0, reentry_attempts = 0, last_trailing_action = 0,
                 tradingview_active = False, tv_position = ''''\<rparr>,
      cache = \<lparr>cache_time = 0, cache_data = None\<rparr>,
      last_webhook = \<lparr>lw_time = 0, lw_data = None\<rparr>,
      orders = []\<rparr>"

section \<open>Python primitives\<close>

text \<open>\<^verbatim>\<open>round(x, 0)\<close> on a float: the nearest integer, a tie going to the even one.\<close>

definition py_round :: "real \<Rightarrow> real" where
  "py_round x =
     (let f = \<lfloor>x\<rfloor>; d = x - of_int f
      in of_int (if d < 1 / 2 then f else if 1 / 2 < d then f + 1
                 else if even f then f else f + 1))"

text \<open>\<^verbatim>\<open>int(x)\<close> on a float truncates towards zero.\<close>

definition py_int :: "real \<Rightarrow> int" where
  "py_int x = (if 0 \<le> x then \<lfloor>x\<rfloor> else \<lceil>x\<rceil>)"

text \<open>
  The rounding of one float operation (IEEE 754 binary64, round to nearest, a tie going to
  the even significand): the exact result is scaled so that its significand has 53 bits,
  rounded to an integer and scaled back. The exponent range is taken as unbounded.
\<close>

definition fl :: "real \<Rightarrow> real" where
  "fl x =
     (if x = 0 then 0
      else (let e = \<lfloor>log 2 \<bar>x\<bar>\<rfloor> - 52 in py_round (x / 2 powr e) * 2 powr e))"

text \<open>\<^verbatim>\<open>str.lower\<close> on the ASCII letters; other characters are left as they are, which
  no comparison with \<^verbatim>\<open>'long'\<close>, \<^verbatim>\<open>'short'\<close> or \<^verbatim>\<open>'flat'\<close> can tell apart.\<close>

definition lower_char :: "char \<Rightarrow> char" where
  "lower_char c =
     (case map_of (zip ''ABCDEFGHIJKLMNOPQRSTUVWXYZ'' ''abcdefghijklmnopqrstuvwxyz'') c of
        Some l \<Rightarrow> l
      | None \<Rightarrow> c)"

definition lower :: "string \<Rightarrow> string" where
  "lower s = map lower_char s"

section \<open>Market data cache\<close>

text \<open>
  \<^verbatim>\<open>get_cached_data\<close>: the cached tuple while it is younger than \<open>CACHE_TTL\<close> (and not
  \<^verbatim>\<open>None\<close>), a fresh fetch stored in the cache otherwise.
\<close>

definition get_cached_data :: "obs \<Rightarrow> state \<Rightarrow> market_data \<times> state" where
  "get_cached_data e s =
     (let current_time = t_fetch e
      in if current_time - cache_time (cache s) < CACHE_TTL \<and> cache_data (cache s) \<noteq> None
         then (the (cache_data (cache s)), s)
         else
           (let d = (v_balance e, v_price e, v_long_size e, v_short_size e)
            in (d, s\<lparr>cache := \<lparr>cache_time = current_time, cache_data = Some d\<rparr>\<rparr>)))"

text \<open>The statement \<^verbatim>\<open>cache['time'] = 0\<close> that precedes a forced refresh.\<close>

definition invalidate :: "state \<Rightarrow> state" where
  "invalidate s = s\<lparr>cache := (cache s)\<lparr>cache_time := 0\<rparr>\<rparr>"

section \<open>Quantity sizing\<close>

definition calculate_quantity :: "real \<Rightarrow> real \<Rightarrow> py_exn + real" where
  "calculate_quantity balance price =
     (let capital = balance * POSITION_SIZE_PERCENT;
          exposure = capital * LEVERAGE
      in if exposure < MIN_ORDER_VALUE then Inr 0
         else if price = 0 then Inl ZeroDivisionError
         else Inr (py_round (exposure / price)))"

section \<open>Order execution\<close>

definition open_position_market :: "obs \<Rightarrow> order_side \<Rightarrow> real \<Rightarrow> bool \<Rightarrow> state \<Rightarrow> bool \<times> state" where
  "open_position_market e oside sz is_reentry s =
     (if sz \<le> 0 then (False, s)
      else
        (let current_price = v_open_price e
         in if current_price \<le> 0 then (False, s)
            else
              (let s1 = s\<lparr>orders := orders s @
                          [\<lparr>o_side = oside, o_size = py_int sz, o_reduce_only = False,
                            o_is_reentry = is_reentry\<rparr>]\<rparr>
               in if v_open_ok e then
                    (let new_side = (if oside = Buy then Long else Short);
                         stop_price =
                           (if new_side = Long
                            then current_price * (1 - (STOP_LOSS_PERCENT / LEVERAGE))
                            else current_price * (1 + (STOP_LOSS_PERCENT / LEVERAGE)))
                     in (True,
                         s1\<lparr>tracker := (tracker s1)
                             \<lparr>entry_price := current_price,
                              side := new_side,
                              size_held := sz,
                              temporarily_closed := False,
                              reentry_attempts := 0,
                              last_trailing_action := t_open e,
                              stop_loss_price := stop_price\<rparr>\<rparr>))
                  else (False, s1))))"

definition close_position_market :: "obs \<Rightarrow> hold_side \<Rightarrow> state \<Rightarrow> bool \<times> state" where
  "close_position_market e sd s =
     (let close_side = (if sd = Long then Sell else Buy);
          s1 = s\<lparr>orders := orders s @
                 [\<lparr>o_side = close_side, o_size = py_int (size_held (tracker s)),
                   o_reduce_only = True, o_is_reentry = False\<rparr>]\<rparr>
      in (v_close_ok e, s1))"

section \<open>Risk engine\<close>

definition check_stop_loss :: "obs \<Rightarrow> state \<Rightarrow> completion \<times> state" where
  "check_stop_loss e s =
     (if \<not> tradingview_active (tracker s) then (Returned, s)
      else if side (tracker s) = Flat \<or> size_held (tracker s) \<le> 0 then (Returned, s)
      else
        (let current_time = t_now e
         in if current_time - last_check (tracker s) < 0.5 then (Returned, s)
            else
              (let s1 = s\<lparr>tracker := (tracker s)\<lparr>last_check := current_time\<rparr>\<rparr>;
                   ((balance, current_price, long_size, short_size), s2) =
                     get_cached_data e (invalidate s1)
               in if current_price \<le> 0 then (Returned, s2)
                  else
                    (let tracked_side = side (tracker s2);
                         tracked_size = size_held (tracker s2);
                         actual_size = (if tracked_side = Long then long_size else short_size)
                     in if actual_size = 0 \<and> tracked_size > 0 then
                          (Returned,
                           s2\<lparr>tracker := (tracker s2)
                               \<lparr>side := Flat, size_held := 0, temporarily_closed := False\<rparr>\<rparr>)
                        else
                          (let entry_price = entry_price (tracker s2);
                               stop_price = stop_loss_price (tracker s2);
                               sd = side (tracker s2);
                               stop_triggered =
                                 ((sd = Long \<and> current_price \<le> stop_price) \<or>
                                  (sd = Short \<and> current_price \<ge> stop_price))
                           in if stop_triggered then
                                (if entry_price = 0 then (Raised ZeroDivisionError, s2)
                                 else
                                   (case close_position_market e sd s2 of
                                      (True, s3) \<Rightarrow>
                                        (Returned,
                                         s3\<lparr>tracker := (tracker s3)
                                             \<lparr>side := Flat, size_held := 0,
                                              temporarily_closed := False\<rparr>\<rparr>)
                                    | (False, s3) \<Rightarrow> (Returned, s3)))
                              else (Returned, s2))))))"

definition check_reentry :: "obs \<Rightarrow> state \<Rightarrow> completion \<times> state" where
  "check_reentry e s =
     (if \<not> tradingview_active (tracker s) then (Returned, s)
      else if \<not> temporarily_closed (tracker s) then (Returned, s)
      else if reentry_attempts (tracker s) \<ge> 3 then (Returned, s)
      else
        (let current_time = t_now e
         in if current_time - last_trailing_action (tracker s) < 3 then (Returned, s)
            else
              (let ((balance, current_price, long_size, short_size), s1) =
                     get_cached_data e (invalidate s)
               in if current_price \<le> 0 then (Returned, s1)
                  else
                    (let entry_price = entry_price (tracker s1);
                         reentry_price = reentry_price (tracker s1);
                         sd = side (tracker s1)
                     in if entry_price = 0 \<or> reentry_price = 0
                        then (Raised ZeroDivisionError, s1)
                        else
                          (let pnl_vs_original =
                                 (if sd = Long then (current_price - entry_price) / entry_price
                                  else (entry_price - current_price) / entry_price);
                               gain_from_close =
                                 (if sd = Long
                                  then (current_price - reentry_price) / reentry_price
                                  else (reentry_price - current_price) / reentry_price)
                           in if gain_from_close \<ge> REENTRY_THRESHOLD then
                                (let s2 = s1\<lparr>tracker := (tracker s1)
                                            \<lparr>reentry_attempts :=
                                               reentry_attempts (tracker s1) + 1\<rparr>\<rparr>
                                 in case calculate_quantity balance current_price of
                                      Inl ex \<Rightarrow> (Raised ex, s2)
                                    | Inr quantity \<Rightarrow>
                                        if quantity > 0 then
                                          (let buy_side = (if sd = Long then Buy else Sell)
                                           in case open_position_market e buy_side quantity
                                                     True s2 of
                                                (True, s3) \<Rightarrow>
                                                  (Returned,
                                                   s3\<lparr>tracker := (tracker s3)
                                                       \<lparr>temporarily_closed := False,
                                                        peak_profit_percent := pnl_vs_original,
                                                        last_trailing_action :=
                                                          current_time\<rparr>\<rparr>)
                                              | (False, s3) \<Rightarrow> (Returned, s3))
                                        else (Returned, s2))
                              else (Returned, s1))))))"

text \<open>
  In \<^verbatim>\<open>check_trailing_profit\<close> the profit fraction, the drop from the peak and its
  share of the peak are float results, each operation rounded by \<open>fl\<close>; the peak it
  stores is such a result.
\<close>

definition check_trailing_profit :: "obs \<Rightarrow> state \<Rightarrow> completion \<times> state" where
  "check_trailing_profit e s =
     (if \<not> tradingview_active (tracker s) then (Returned, s)
      else if side (tracker s) = Flat \<or> size_held (tracker s) \<le> 0 then (Returned, s)
      else if temporarily_closed (tracker s) then check_reentry e s
      else
        (let current_time = t_now e
         in if current_time - last_check (tracker s) < 0.5 then (Returned, s)
            else if current_time - last_trailing_action (tracker s) < 3 then (Returned, s)
            else
              (let ((balance, current_price, long_size, short_size), s1) =
                     get_cached_data e (invalidate s)
               in if current_price \<le> 0 then (Returned, s1)
                  else
                    (let entry_price = entry_price (tracker s1);
                         sd = side (tracker s1)
                     in if entry_price = 0 then (Raised ZeroDivisionError, s1)
                        else
                          (let pnl_percent =
                                 (if sd = Long
                                  then fl (fl (current_price - entry_price) / entry_price)
                                  else fl (fl (entry_price - current_price) / entry_price));
                               s2 = (if pnl_percent > peak_profit_percent (tracker s1)
                                     then s1\<lparr>tracker := (tracker s1)
                                              \<lparr>peak_profit_percent := pnl_percent\<rparr>\<rparr>
                                     else s1);
                               peak = peak_profit_percent (tracker s2)
                           in if peak < MIN_PROFIT_FOR_TRAILING then (Returned, s2)
                              else
                                (let drop = fl (peak - pnl_percent);
                                     drop_percent_of_peak =
                                       (if peak > 0 then fl (drop / peak) else 0)
                                 in if drop_percent_of_peak \<ge> TRAILING_PROFIT_DROP then
                                      (case close_position_market e sd s2 of
                                         (True, s3) \<Rightarrow>
                                           (Returned,
                                            s3\<lparr>tracker := (tracker s3)
                                                \<lparr>temporarily_closed := True,
                                                 reentry_price := current_price,
                                                 reentry_attempts := 0,
                                                 last_trailing_action := current_time\<rparr>\<rparr>)
                                       | (False, s3) \<Rightarrow> (Returned, s3))
                                    else (Returned, s2)))))))"

section \<open>HTTP handlers\<close>

text \<open>
  The route \<^verbatim>\<open>/health\<close>: both checks, each with its own observations, inside a
  \<^verbatim>\<open>try\<close> whose \<^verbatim>\<open>except\<close> swallows every exception. An exception in the stop-loss
  check skips the trailing-profit check.
\<close>

definition health :: "obs \<Rightarrow> obs \<Rightarrow> state \<Rightarrow> state" where
  "health e1 e2 s =
     (if tradingview_active (tracker s) then
        (case check_stop_loss e1 s of
           (Returned, s1) \<Rightarrow> snd (check_trailing_profit e2 s1)
         | (Raised ex, s1) \<Rightarrow> s1)
      else s)"

text \<open>
  One value read by \<^verbatim>\<open>data.get(key, '')\<close> from the webhook body: the key is missing,
  it holds a string, or it holds something that has no \<^verbatim>\<open>lower\<close> method.
\<close>

datatype json_field = Missing | JString string | JOther

text \<open>
  The parsed body \<^verbatim>\<open>data\<close> of a webhook: its serialisation
  \<^verbatim>\<open>json.dumps(data, sort_keys=True)\<close>, whether it is a JSON object (anything else has
  no \<^verbatim>\<open>get\<close> method), and the two keys whose values the handler uses. The key
  \<^verbatim>\<open>timeframe\<close> is only logged.
\<close>

record webhook_data =
  data_str :: string
  is_object :: bool
  marketPosition :: json_field
  prevMarketPosition :: json_field

text \<open>A request whose body \<^verbatim>\<open>request.get_json()\<close> rejects, or one with a parsed body.\<close>

datatype request = Malformed | Parsed webhook_data

text \<open>The JSON answers of the webhook: the three values of \<^verbatim>\<open>status\<close>, and the answer
  of the \<^verbatim>\<open>except\<close> clause, which carries the exception.\<close>

datatype response = StatusOk | StatusDuplicate | StatusError | StatusException py_exn

definition get_lower :: "json_field \<Rightarrow> py_exn + string" where
  "get_lower f =
     (case f of Missing \<Rightarrow> Inr (lower [])
      | JString v \<Rightarrow> Inr (lower v)
      | JOther \<Rightarrow> Inl AttributeError)"

text \<open>
  The three stance branches of \<^verbatim>\<open>webhook\<close>, each given the values the handler
  fetched. The answers of the order requests are not read there, and the pause
  \<^verbatim>\<open>time.sleep(0.5)\<close> after closing the opposite side changes no variable.
\<close>

definition webhook_long :: "obs \<Rightarrow> real \<Rightarrow> real \<Rightarrow> real \<Rightarrow> real \<Rightarrow> state \<Rightarrow> response \<times> state" where
  "webhook_long e balance current_price long_size short_size s =
     (let s1 = s\<lparr>tracker := (tracker s)\<lparr>tradingview_active := True\<rparr>\<rparr>
      in if long_size > 0 then (StatusOk, s1)
         else
           (let s2 = (if short_size > 0 then snd (close_position_market e Short s1) else s1)
            in case calculate_quantity balance current_price of
                 Inl ex \<Rightarrow> (StatusException ex, s2)
               | Inr quantity \<Rightarrow>
                   if quantity > 0
                   then (StatusOk, snd (open_position_market e Buy quantity False s2))
                   else (StatusOk, s2)))"

definition webhook_short :: "obs \<Rightarrow> real \<Rightarrow> real \<Rightarrow> real \<Rightarrow> real \<Rightarrow> state \<Rightarrow> response \<times> state" where
  "webhook_short e balance current_price long_size short_size s =
     (let s1 = s\<lparr>tracker := (tracker s)\<lparr>tradingview_active := True\<rparr>\<rparr>
      in if short_size > 0 then (StatusOk, s1)
         else
           (let s2 = (if long_size > 0 then snd (close_position_market e Long s1) else s1)
            in case calculate_quantity balance current_price of
                 Inl ex \<Rightarrow> (StatusException ex, s2)
               | Inr quantity \<Rightarrow>
                   if quantity > 0
                   then (StatusOk, snd (open_position_market e Sell quantity False s2))
                   else (StatusOk, s2)))"

definition webhook_flat :: "obs \<Rightarrow> real \<Rightarrow> real \<Rightarrow> state \<Rightarrow> response \<times> state" where
  "webhook_flat e long_size short_size s =
     (let s1 = (if long_size > 0 then snd (close_position_market e Long s) else s);
          s2 = (if short_size > 0 then snd (close_position_market e Short s1) else s1)
      in (StatusOk,
          s2\<lparr>tracker := (tracker s2)
              \<lparr>tradingview_active := False,
               side := Flat,
               size_held := 0,
               temporarily_closed := False,
               peak_profit_percent := 0\<rparr>\<rparr>))"

text \<open>
  The second half of \<^verbatim>\<open>webhook\<close>, from the assignment of \<^verbatim>\<open>tv_position\<close> on: the
  forced refresh, the guard on balance and price, and the branch on the stance.
\<close>

definition webhook_dispatch :: "string \<Rightarrow> obs \<Rightarrow> state \<Rightarrow> response \<times> state" where
  "webhook_dispatch market_position e s =
     (let s1 = s\<lparr>tracker := (tracker s)\<lparr>tv_position := market_position\<rparr>\<rparr>;
          ((balance, current_price, long_size, short_size), s2) =
            get_cached_data e (invalidate s1)
      in if balance \<le> 0 \<or> current_price \<le> 0 then (StatusError, s2)
         else if market_position = ''long''
         then webhook_long e balance current_price long_size short_size s2
         else if market_position = ''short''
         then webhook_short e balance current_price long_size short_size s2
         else if market_position = ''flat''
         then webhook_flat e long_size short_size s2
         else (StatusOk, s2))"

text \<open>
  The first half of \<^verbatim>\<open>webhook\<close>: the body is parsed, a duplicate is answered at once,
  the deduplication record is written, and the two stances are read. Every exception is
  caught by the handler and answered; what was written before it stays written.
\<close>

definition webhook :: "request \<Rightarrow> obs \<Rightarrow> state \<Rightarrow> response \<times> state" where
  "webhook r e s =
     (case r of
        Malformed \<Rightarrow> (StatusException BadRequest, s)
      | Parsed data \<Rightarrow>
          (let current_time = t_now e
           in if current_time - lw_time (last_webhook s) < 2 \<and>
                 lw_data (last_webhook s) = Some (data_str data)
              then (StatusDuplicate, s)
              else
                (let s1 = s\<lparr>last_webhook :=
                              \<lparr>lw_time = current_time, lw_data = Some (data_str data)\<rparr>\<rparr>
                 in if \<not> is_object data then (StatusException AttributeError, s1)
                    else
                      (case get_lower (marketPosition data) of
                         Inl ex \<Rightarrow> (StatusException ex, s1)
                       | Inr market_position \<Rightarrow>
                           (case get_lower (prevMarketPosition data) of
                              Inl ex \<Rightarrow> (StatusException ex, s1)
                            | Inr prev_market_position \<Rightarrow>
                                webhook_dispatch market_position e s1)))))"

section \<open>Runs of the program\<close>

text \<open>
  One event is one call from outside: a webhook, a health tick, or one of the three
  procedures of the risk engine called on its own. A run applies events one after the
  other, starting from a state.
\<close>

datatype event =
    Webhook request obs
  | Health obs obs
  | StopLoss obs
  | TrailingProfit obs
  | Reentry obs

fun step :: "event \<Rightarrow> state \<Rightarrow> state" where
  "step (Webhook r e) s = snd (webhook r e s)"
| "step (Health e1 e2) s = health e1 e2 s"
| "step (StopLoss e) s = snd (check_stop_loss e s)"
| "step (TrailingProfit e) s = snd (check_trailing_profit e s)"
| "step (Reentry e) s = snd (check_reentry e s)"

fun run :: "event list \<Rightarrow> state \<Rightarrow> state" where
  "run [] s = s"
| "run (ev # evs) s = run evs (step ev s)"

section \<open>Vocabulary of the properties\<close>




text \<open>The size the venue reports for the tracked side.\<close>

definition venue_size :: "obs \<Rightarrow> hold_side \<Rightarrow> real" where
  "venue_size e sd = (if sd = Long then v_long_size e else v_short_size e)"

text \<open>The request that closes a position of side \<open>sd\<close> while the tracker holds \<open>sz\<close>.\<close>

definition close_order :: "hold_side \<Rightarrow> real \<Rightarrow> order" where
  "close_order sd sz =
     \<lparr>o_side = (if sd = Long then Sell else Buy), o_size = py_int sz,
      o_reduce_only = True, o_is_reentry = False\<rparr>"

text \<open>The request that opens a position of side \<open>sd\<close> and size \<open>sz\<close>.\<close>

definition open_order :: "hold_side \<Rightarrow> real \<Rightarrow> bool \<Rightarrow> order" where
  "open_order sd sz is_reentry =
     \<lparr>o_side = (if sd = Long then Buy else Sell), o_size = py_int sz,
      o_reduce_only = False, o_is_reentry = is_reentry\<rparr>"

text \<open>The order requests of re-entries among the requests sent so far.\<close>

definition reentry_orders :: "state \<Rightarrow> order list" where
  "reentry_orders s = filter o_is_reentry (orders s)"

fun is_webhook :: "event \<Rightarrow> bool" where
  "is_webhook (Webhook r e) = True"
| "is_webhook (Health e1 e2) = False"
| "is_webhook (StopLoss e) = False"
| "is_webhook (TrailingProfit e) = False"
| "is_webhook (Reentry e) = False"


text \<open>What holds of the tracker in every state the program reaches (lemma
  \<open>run_tracker_ok\<close> below): a tracked side has a positive entry price and size and the stop
  price of its entry, a temporarily closed position keeps its side and has a positive
  closing price, the attempt counter is between 0 and 3, and it is 0 while a position is
  open.\<close>

definition tracker_ok :: "state \<Rightarrow> bool" where
  "tracker_ok s \<longleftrightarrow>
     (side (tracker s) \<noteq> Flat \<longrightarrow>
        0 < entry_price (tracker s) \<and> 0 < size_held (tracker s) \<and>
        stop_loss_price (tracker s) =
          (if side (tracker s) = Long
           then entry_price (tracker s) * (1 - STOP_LOSS_PERCENT / LEVERAGE)
           else entry_price (tracker s) * (1 + STOP_LOSS_PERCENT / LEVERAGE))) \<and>
     (temporarily_closed (tracker s) \<longrightarrow>
        side (tracker s) \<noteq> Flat \<and> 0 < reentry_price (tracker s)) \<and>
     0 \<le> reentry_attempts (tracker s) \<and> reentry_attempts (tracker s) \<le> 3 \<and>
     (side (tracker s) \<noteq> Flat \<and> \<not> temporarily_closed (tracker s) \<longrightarrow>
        reentry_attempts (tracker s) = 0)"

section \<open>An example run\<close>

text \<open>
  Observations at time \<open>t\<close> with balance 1000, price \<open>p\<close>, a long size \<open>l\<close> and no short
  size on the venue, where a close request succeeds and an open request succeeds when
  \<open>ok\<close>.
\<close>

definition tick :: "real \<Rightarrow> real \<Rightarrow> real \<Rightarrow> bool \<Rightarrow> obs" where
  "tick t p l ok =
     \<lparr>t_now = t, t_fetch = t, v_balance = 1000, v_price = p, v_long_size = l,
      v_short_size = 0, v_close_ok = True, v_open_price = p, v_open_ok = ok, t_open = t\<rparr>"

text \<open>A webhook body with the stance \<open>mp\<close> and the previous stance \<open>prev\<close>; the string
  stands for its serialisation.\<close>

definition signal :: "string \<Rightarrow> string \<Rightarrow> request" where
  "signal mp prev =
     Parsed \<lparr>data_str = mp @ ''/'' @ prev, is_object = True,
             marketPosition = JString mp, prevMarketPosition = JString prev\<rparr>"

text \<open>A long signal at price 1.00 opens 3840 units; the price rises to 1.01, where the
  check stores the float nearest to 0.01 as peak, and falls back to 1.005, where the
  trailing check closes the position.\<close>

definition ev_open :: event where
  "ev_open = Webhook (signal ''long'' ''flat'') (tick 1000 1 0 True)"

definition ev_peak :: event where
  "ev_peak = TrailingProfit (tick 1010 (101 / 100) 3840 True)"

definition ev_lock :: event where
  "ev_lock = TrailingProfit (tick 1020 (201 / 200) 3840 True)"

text \<open>The same observations with a balance of 1, too small for any order.\<close>

definition low_balance :: "obs \<Rightarrow> obs" where
  "low_balance e = e\<lparr>v_balance := 1\<rparr>"


definition ex_open :: "event list" where
  "ex_open = [ev_open]"

definition ex_peak :: "event list" where
  "ex_peak = ex_open @ [ev_peak]"

definition ex_locked :: "event list" where
  "ex_locked = ex_peak @ [ev_lock]"



text \<open>From the locked state: a re-entry that succeeds at price 1.01.\<close>

definition ev_reenter :: event where
  "ev_reenter = Reentry (tick 1030 (101 / 100) 0 True)"

text \<open>From the locked state: three re-entry attempts declined for lack of balance, then
  a second long signal (no flat signal before it) that opens again, a trailing close at
  1.012 and a re-entry at 1.02.\<close>

definition ev_decline :: event where
  "ev_decline = Reentry (low_balance (tick 1030 (101 / 100) 0 True))"

definition ev_reopen :: event where
  "ev_reopen = Webhook (signal ''long'' ''long'') (tick 1040 (101 / 100) 0 True)"

definition ev_lock_again :: event where
  "ev_lock_again = TrailingProfit (tick 1050 (1012 / 1000) 3802 True)"

definition ev_reenter_again :: event where
  "ev_reenter_again = Reentry (tick 1060 (102 / 100) 0 True)"

definition ex_exhausted :: "event list" where
  "ex_exhausted = ex_locked @ [ev_decline, ev_decline, ev_decline]"

definition ex_again :: "event list" where
  "ex_again = [ev_reopen, ev_lock_again, ev_reenter_again]"

text \<open>A webhook whose stance is flat.\<close>

fun is_flat_signal :: "event \<Rightarrow> bool" where
  "is_flat_signal (Webhook (Parsed d) e) = (get_lower (marketPosition d) = Inr ''flat'')"
| "is_flat_signal ev = False"

definition ex_open_state :: state where
  "ex_open_state =
     \<lparr>tracker = \<lparr>entry_price = 1, side = Long, size_held = 3840,
                 stop_loss_price = 393 / 400, last_check = 0, peak_profit_percent = 0,
                 temporarily_closed = False, reentry_price = 0, reentry_attempts = 0,
                 last_trailing_action = 1000, tradingview_active = True,
                 tv_position = ''long''\<rparr>,
      cache = \<lparr>cache_time = 1000, cache_data = Some (1000, 1, 0, 0)\<rparr>,
      last_webhook = \<lparr>lw_time = 1000, lw_data = Some ''long/flat''\<rparr>,
      orders = [open_order Long 3840 False]\<rparr>"

definition ex_peak_state :: state where
  "ex_peak_state =
     ex_open_state
       \<lparr>tracker := (tracker ex_open_state)
          \<lparr>peak_profit_percent := 5764607523034235 / 576460752303423488\<rparr>,
        cache := \<lparr>cache_time = 1010, cache_data = Some (1000, 101 / 100, 3840, 0)\<rparr>\<rparr>"

definition ex_locked_state :: state where
  "ex_locked_state =
     ex_peak_state
       \<lparr>tracker := (tracker ex_peak_state)
          \<lparr>temporarily_closed := True, reentry_price := 201 / 200,
           last_trailing_action := 1020\<rparr>,
        cache := \<lparr>cache_time = 1020, cache_data = Some (1000, 201 / 200, 3840, 0)\<rparr>,
        orders := [open_order Long 3840 False, close_order Long 3840]\<rparr>"

section \<open>Properties\<close>

lemmas config_defs =
  LEVERAGE_def POSITION_SIZE_PERCENT_def MIN_ORDER_VALUE_def STOP_LOSS_PERCENT_def
  TRAILING_PROFIT_DROP_def REENTRY_THRESHOLD_def MIN_PROFIT_FOR_TRAILING_def CACHE_TTL_def

lemmas venue_defs =
  get_cached_data_def invalidate_def open_position_market_def close_position_market_def
  calculate_quantity_def

lemmas example_defs =
  tick_def signal_def init_state_def ex_open_state_def ex_peak_state_def ex_locked_state_def
  open_order_def close_order_def py_int_def py_round_def

lemmas ex_state_defs = ex_locked_state_def ex_peak_state_def ex_open_state_def

subsection \<open>Float rounding\<close>

lemma fl_zero [simp]: "fl 0 = 0"
  by (simp add: fl_def)

text \<open>The float nearest to a value whose magnitude lies between \<open>2\<^sup>-\<^sup>n\<close> and
  \<open>2\<^sup>1\<^sup>-\<^sup>n\<close>.\<close>

lemma fl_below_two:
  assumes "1 \<le> \<bar>x\<bar> * 2 ^ n" and "\<bar>x\<bar> * 2 ^ n < 2"
  shows "fl x = py_round (x * 2 ^ (52 + n)) / 2 ^ (52 + n)"
proof -
  have pos: "0 < \<bar>x\<bar>"
    using assms(1) by (cases "x = 0") auto
  have pw: "(2::real) powr (- real m) = 1 / 2 ^ m" for m
    by (simp add: powr_minus powr_realpow inverse_eq_divide)
  have lo: "(2::real) powr real_of_int (- int n) = 1 / 2 ^ n"
    using pw [of n] by simp
  have "(2::real) powr (- real n + 1) = 2 powr (- real n) * 2 powr 1"
    by (rule powr_add)
  then have hi: "(2::real) powr real_of_int (- int n + 1) = 2 / 2 ^ n"
    using pw [of n] by simp
  have "2 powr real_of_int (- int n) \<le> \<bar>x\<bar>"
    unfolding lo using assms(1) by (simp add: field_simps)
  moreover have "\<bar>x\<bar> < 2 powr real_of_int (- int n + 1)"
    unfolding hi using assms(2) by (simp add: field_simps)
  ultimately have "\<lfloor>log 2 \<bar>x\<bar>\<rfloor> = - int n"
    using pos by (subst floor_log_eq_powr_iff) simp_all
  then have e: "\<lfloor>log 2 \<bar>x\<bar>\<rfloor> - 52 = - int (52 + n)"
    by simp
  have p: "(2::real) powr real_of_int (- int (52 + n)) = 1 / 2 ^ (52 + n)"
    using pw [of "52 + n"] by simp
  have "x \<noteq> 0"
    using pos by simp
  then show ?thesis
    unfolding fl_def Let_def e p by simp
qed



text \<open>The float results of the example runs.\<close>

lemma fl_values:
  "fl (1 / 100) = 5764607523034235 / 576460752303423488"
  "fl (5764607523034235 / 576460752303423488) = 5764607523034235 / 576460752303423488"
  "fl (1 / 200) = 5764607523034235 / 1152921504606846976"
  "fl (5764607523034235 / 1152921504606846976) = 5764607523034235 / 1152921504606846976"
  "fl (1 / 2) = 1 / 2"
  "fl (1 / 64) = 1 / 64"
  "fl (1 / 128) = 1 / 128"
proof -
  show "fl (1 / 100) = 5764607523034235 / 576460752303423488"
    by (subst fl_below_two [where n = 7]) (simp_all add: py_round_def)
  show "fl (5764607523034235 / 576460752303423488) = 5764607523034235 / 576460752303423488"
    by (subst fl_below_two [where n = 7]) (simp_all add: py_round_def)
  show "fl (1 / 200) = 5764607523034235 / 1152921504606846976"
    by (subst fl_below_two [where n = 8]) (simp_all add: py_round_def)
  show "fl (5764607523034235 / 1152921504606846976) = 5764607523034235 / 1152921504606846976"
    by (subst fl_below_two [where n = 8]) (simp_all add: py_round_def)
  show "fl (1 / 2) = 1 / 2"
    by (subst fl_below_two [where n = 1]) (simp_all add: py_round_def)
  show "fl (1 / 64) = 1 / 64"
    by (subst fl_below_two [where n = 6]) (simp_all add: py_round_def)
  show "fl (1 / 128) = 1 / 128"
    by (subst fl_below_two [where n = 7]) (simp_all add: py_round_def)
qed

subsection \<open>The example run\<close>

lemma lower_long: "lower ''long'' = ''long''"
  by (simp add: lower_def lower_char_def)

lemma lower_flat: "lower ''flat'' = ''flat''"
  by (simp add: lower_def lower_char_def)

lemma run_append: "run (evs @ evs') s = run evs' (run evs s)"
  by (induction evs arbitrary: s) simp_all

lemma ex_open_run: "run ex_open init_state = ex_open_state"
  by (simp add: ex_open_def ev_open_def webhook_def webhook_dispatch_def webhook_long_def
      get_lower_def
      lower_long lower_flat venue_defs config_defs example_defs Let_def)

lemma ex_peak_step: "step ev_peak ex_open_state = ex_peak_state"
  by (simp add: ev_peak_def check_trailing_profit_def venue_defs config_defs example_defs
      fl_values Let_def)

lemma ex_locked_step: "step ev_lock ex_peak_state = ex_locked_state"
  by (simp add: ev_lock_def check_trailing_profit_def venue_defs config_defs example_defs
      fl_values Let_def)

lemma ex_peak_run: "run ex_peak init_state = ex_peak_state"
  by (simp add: ex_peak_def run_append ex_open_run ex_peak_step)

lemma ex_locked_run: "run ex_locked init_state = ex_locked_state"
  by (simp add: ex_locked_def run_append ex_peak_run ex_locked_step)

subsection \<open>The cache and the order gateway\<close>

lemma invalidate_frame [simp]:
  "tracker (invalidate s) = tracker s"
  "orders (invalidate s) = orders s"
  "last_webhook (invalidate s) = last_webhook s"
  "(invalidate s)\<lparr>cache := c\<rparr> = s\<lparr>cache := c\<rparr>"
  by (simp_all add: invalidate_def)

text \<open>Whatever the cache holds, a fetch returns some tuple and changes the cache only.\<close>

lemma get_cached_data_shape:
  obtains b p l sh c where "get_cached_data e (invalidate s) = ((b, p, l, sh), s\<lparr>cache := c\<rparr>)"
proof -
  have "\<exists>d c. get_cached_data e (invalidate s) = (d, s\<lparr>cache := c\<rparr>)"
  proof (cases "t_fetch e - cache_time (cache (invalidate s)) < CACHE_TTL \<and>
                cache_data (cache (invalidate s)) \<noteq> None")
    case True
    then have "get_cached_data e (invalidate s) =
        (the (cache_data (cache (invalidate s))), s\<lparr>cache := cache (invalidate s)\<rparr>)"
      by (simp add: get_cached_data_def Let_def invalidate_def)
    then show ?thesis by blast
  next
    case False
    then have "get_cached_data e (invalidate s) =
        ((v_balance e, v_price e, v_long_size e, v_short_size e),
         s\<lparr>cache := \<lparr>cache_time = t_fetch e,
              cache_data = Some (v_balance e, v_price e, v_long_size e, v_short_size e)\<rparr>\<rparr>)"
      unfolding get_cached_data_def Let_def by (simp only: if_False invalidate_frame)
    then show ?thesis by blast
  qed
  then obtain d c where "get_cached_data e (invalidate s) = (d, s\<lparr>cache := c\<rparr>)"
    by blast
  moreover obtain b p l sh where "d = (b, p, l, sh)"
    by (cases d) auto
  ultimately show ?thesis
    using that by simp
qed

text \<open>Once the clock has passed \<open>CACHE_TTL\<close>, a fetch after an invalidation is fresh.\<close>

lemma get_cached_data_fresh:
  "CACHE_TTL \<le> t_fetch e \<Longrightarrow>
   get_cached_data e (invalidate s) =
     ((v_balance e, v_price e, v_long_size e, v_short_size e),
      s\<lparr>cache := \<lparr>cache_time = t_fetch e,
                   cache_data = Some (v_balance e, v_price e, v_long_size e, v_short_size e)\<rparr>\<rparr>)"
  by (simp add: get_cached_data_def invalidate_def Let_def)

lemma close_position_market_eq:
  "close_position_market e sd s =
     (v_close_ok e, s\<lparr>orders := orders s @ [close_order sd (size_held (tracker s))]\<rparr>)"
  by (simp add: close_position_market_def close_order_def Let_def)



subsection \<open>Quantity sizing\<close>




subsection \<open>The master gate\<close>

text \<open>
  Claim C4. For every state whose tracker has \<open>tradingview_active\<close> false and for all
  observations, each of the three procedures of the risk engine returns at once: the
  tracker, and with it the whole state, is unchanged.
\<close>

theorem risk_engine_gate:
  assumes "\<not> tradingview_active (tracker s)"
  shows "check_stop_loss e s = (Returned, s)
         \<and> check_trailing_profit e s = (Returned, s)
         \<and> check_reentry e s = (Returned, s)"
  using assms
  by (simp add: check_stop_loss_def check_trailing_profit_def check_reentry_def)

theorem risk_engine_gate_witness:
  "\<not> tradingview_active (tracker init_state)
   \<and> check_stop_loss (tick 1000 1 0 True) init_state = (Returned, init_state)
   \<and> check_trailing_profit (tick 1000 1 0 True) init_state = (Returned, init_state)
   \<and> check_reentry (tick 1000 1 0 True) init_state = (Returned, init_state)"
proof -
  have h: "\<not> tradingview_active (tracker init_state)"
    by (simp add: init_state_def)
  show ?thesis
    using h risk_engine_gate [OF h, of "tick 1000 1 0 True"] by simp
qed

subsection \<open>Webhook deduplication\<close>

text \<open>
  Claim C9. A webhook whose serialised body equals the one recorded by the last accepted
  webhook, and that arrives less than 2 seconds after it, is answered with the status
  \<open>duplicate\<close> and leaves the whole state as it was: tracker, deduplication record and
  cache are unchanged and no order request is sent.
\<close>

theorem webhook_duplicate:
  assumes "t_now e - lw_time (last_webhook s) < 2"
    and "lw_data (last_webhook s) = Some (data_str d)"
  shows "webhook (Parsed d) e s = (StatusDuplicate, s)"
  using assms by (simp add: webhook_def Let_def)

theorem webhook_duplicate_witness:
  "t_now (tick 1001 1 3840 True) - lw_time (last_webhook (run ex_open init_state)) < 2
   \<and> lw_data (last_webhook (run ex_open init_state)) = Some ''long/flat''
   \<and> webhook (signal ''long'' ''flat'') (tick 1001 1 3840 True) (run ex_open init_state) =
       (StatusDuplicate, run ex_open init_state)"
proof -
  let ?d = "\<lparr>data_str = ''long/flat'', is_object = True, marketPosition = JString ''long'',
             prevMarketPosition = JString ''flat''\<rparr>"
  have h1: "t_now (tick 1001 1 3840 True) - lw_time (last_webhook (run ex_open init_state)) < 2"
    by (simp add: ex_open_run ex_open_state_def tick_def)
  have h2: "lw_data (last_webhook (run ex_open init_state)) = Some (data_str ?d)"
    by (simp add: ex_open_run ex_open_state_def)
  show ?thesis
    using h1 h2 webhook_duplicate [OF h1 h2] by (simp add: signal_def)
qed

subsection \<open>The stop price of an open\<close>



subsection \<open>What every reachable state satisfies\<close>

lemma tracker_ok_cong: "tracker s' = tracker s \<Longrightarrow> tracker_ok s' = tracker_ok s"
  by (simp add: tracker_ok_def)

lemma check_stop_loss_tracker:
  "tracker (snd (check_stop_loss e s)) = tracker s \<or>
   tracker (snd (check_stop_loss e s)) = (tracker s)\<lparr>last_check := t_now e\<rparr> \<or>
   tracker (snd (check_stop_loss e s)) =
     (tracker s)\<lparr>last_check := t_now e, side := Flat, size_held := 0,
                  temporarily_closed := False\<rparr>"
proof -
  obtain b p l sh c where
    g: "get_cached_data e (invalidate (s\<lparr>tracker := (tracker s)\<lparr>last_check := t_now e\<rparr>\<rparr>)) =
          ((b, p, l, sh), s\<lparr>tracker := (tracker s)\<lparr>last_check := t_now e\<rparr>\<rparr>\<lparr>cache := c\<rparr>)"
    by (rule get_cached_data_shape)
  show ?thesis
    by (simp add: check_stop_loss_def g close_position_market_eq Let_def
        split: bool.split)
qed

lemma check_stop_loss_ok:
  assumes "tracker_ok s"
  shows "tracker_ok (snd (check_stop_loss e s))"
  using check_stop_loss_tracker [of e s] assms
  by (auto simp: tracker_ok_def)

lemma open_position_market_ok:
  assumes "tracker_ok s"
  shows "tracker_ok (snd (open_position_market e oside sz re s))"
  using assms
  by (simp add: tracker_ok_def open_position_market_def Let_def config_defs)

lemma check_reentry_ok:
  assumes "tracker_ok s"
  shows "tracker_ok (snd (check_reentry e s))"
proof -
  obtain b p l sh c where
    g: "get_cached_data e (invalidate s) = ((b, p, l, sh), s\<lparr>cache := c\<rparr>)"
    by (rule get_cached_data_shape)
  show ?thesis
    using assms
    by (simp add: check_reentry_def g tracker_ok_def open_position_market_def Let_def config_defs
        split: sum.split)
qed

lemma check_trailing_profit_ok:
  assumes "tracker_ok s"
  shows "tracker_ok (snd (check_trailing_profit e s))"
proof (cases "temporarily_closed (tracker s)")
  case True
  then show ?thesis
    using assms check_reentry_ok [of s e] by (simp add: check_trailing_profit_def)
next
  case False
  obtain b p l sh c where
    g: "get_cached_data e (invalidate s) = ((b, p, l, sh), s\<lparr>cache := c\<rparr>)"
    by (rule get_cached_data_shape)
  show ?thesis
  proof (cases "side (tracker s) = Flat")
    case True
    then show ?thesis
      using assms by (simp add: check_trailing_profit_def)
  next
    case side: False
    then have "0 < entry_price (tracker s)"
      using assms by (simp add: tracker_ok_def)
    then show ?thesis
      using assms False side
      by (simp add: check_trailing_profit_def g tracker_ok_def close_position_market_eq Let_def
          split: bool.split)
  qed
qed

lemma health_ok:
  assumes "tracker_ok s"
  shows "tracker_ok (health e1 e2 s)"
proof -
  obtain r s1 where r: "check_stop_loss e1 s = (r, s1)"
    by (cases "check_stop_loss e1 s")
  then have "tracker_ok s1"
    using check_stop_loss_ok [OF assms, of e1] by simp
  then show ?thesis
    using assms r check_trailing_profit_ok [of s1 e2]
    by (simp add: health_def split: completion.split)
qed

lemma close_position_market_ok:
  "tracker_ok (snd (close_position_market e sd s)) = tracker_ok s"
  by (simp add: close_position_market_eq tracker_ok_def)

lemma set_active_ok:
  "tracker_ok (s\<lparr>tracker := (tracker s)\<lparr>tradingview_active := b\<rparr>\<rparr>) = tracker_ok s"
  by (simp add: tracker_ok_def)

lemma webhook_long_ok:
  assumes "tracker_ok s"
  shows "tracker_ok (snd (webhook_long e b p l sh s))"
  using assms
  by (simp add: webhook_long_def Let_def open_position_market_ok close_position_market_ok
      set_active_ok split: sum.split)

lemma webhook_short_ok:
  assumes "tracker_ok s"
  shows "tracker_ok (snd (webhook_short e b p l sh s))"
  using assms
  by (simp add: webhook_short_def Let_def open_position_market_ok close_position_market_ok
      set_active_ok split: sum.split)

lemma webhook_flat_ok:
  assumes "tracker_ok s"
  shows "tracker_ok (snd (webhook_flat e l sh s))"
  using assms
  by (simp add: webhook_flat_def Let_def close_position_market_eq tracker_ok_def)

lemma webhook_dispatch_ok:
  assumes "tracker_ok s"
  shows "tracker_ok (snd (webhook_dispatch m e s))"
proof -
  let ?s1 = "s\<lparr>tracker := (tracker s)\<lparr>tv_position := m\<rparr>\<rparr>"
  obtain b p l sh c where
    g: "get_cached_data e (invalidate ?s1) = ((b, p, l, sh), ?s1\<lparr>cache := c\<rparr>)"
    by (rule get_cached_data_shape)
  have ok: "tracker_ok (s\<lparr>tracker := (tracker s)\<lparr>tv_position := m'\<rparr>, cache := c\<rparr>)" for m'
    using assms by (simp add: tracker_ok_def)
  show ?thesis
    by (simp add: webhook_dispatch_def g Let_def ok webhook_long_ok webhook_short_ok
        webhook_flat_ok)
qed

lemma webhook_ok:
  assumes "tracker_ok s"
  shows "tracker_ok (snd (webhook r e s))"
proof (cases r)
  case Malformed
  then show ?thesis using assms by (simp add: webhook_def)
next
  case (Parsed data)
  have "tracker_ok (s\<lparr>last_webhook := w\<rparr>)" for w
    using assms by (simp add: tracker_ok_def)
  then show ?thesis
    using assms
    by (simp add: webhook_def Parsed Let_def webhook_dispatch_ok split: sum.split)
qed

lemma step_ok: "tracker_ok s \<Longrightarrow> tracker_ok (step ev s)"
  by (cases ev) (simp_all add: webhook_ok health_ok check_stop_loss_ok check_trailing_profit_ok
      check_reentry_ok)

lemma run_ok: "tracker_ok s \<Longrightarrow> tracker_ok (run evs s)"
  by (induction evs arbitrary: s) (simp_all add: step_ok)

lemma init_ok: "tracker_ok init_state"
  by (simp add: tracker_ok_def init_state_def)

lemma run_tracker_ok: "tracker_ok (run evs init_state)"
  by (rule run_ok [OF init_ok])

subsection \<open>Idle states\<close>

lemma idle_step:
  assumes "\<not> tradingview_active (tracker s) \<or>
           (side (tracker s) = Flat \<and> \<not> temporarily_closed (tracker s))"
    and "\<not> is_webhook ev"
  shows "step ev s = s"
  using assms
  by (cases ev)
    (auto simp: health_def check_stop_loss_def check_trailing_profit_def check_reentry_def)

lemma idle_run:
  assumes "\<not> tradingview_active (tracker s) \<or>
           (side (tracker s) = Flat \<and> \<not> temporarily_closed (tracker s))"
    and "\<forall>ev \<in> set evs. \<not> is_webhook ev"
  shows "run evs s = s"
  using assms by (induction evs) (simp_all add: idle_step)

subsection \<open>The stop-loss check\<close>



subsection \<open>The trailing-profit check\<close>





subsection \<open>Re-entry\<close>




subsection \<open>The stop-loss check on a temporarily closed position\<close>

text \<open>
  Claim C2. In every temporarily closed state (the tracker keeps its side and a positive
  size) with the signal active and the throttle of 0.5 seconds elapsed, when the fetched
  price is positive and the venue reports size zero for the tracked side, the stop-loss
  check takes the branch for a manually closed position: it sends no order and resets side,
  size and the temporarily-closed flag. After that a re-entry check does nothing, the health
  tick that ran this stop-loss check ends in the same state, and so does every later run of
  health ticks and risk-engine calls without a webhook: no re-entry fires.
\<close>

theorem stop_loss_clears_locked:
  assumes active: "tradingview_active (tracker s)"
    and locked: "temporarily_closed (tracker s)"
    and sd: "side (tracker s) \<noteq> Flat"
    and sz: "0 < size_held (tracker s)"
    and throttle: "0.5 \<le> t_now e - last_check (tracker s)"
    and fresh: "CACHE_TTL \<le> t_fetch e"
    and price: "0 < v_price e"
    and venue: "venue_size e (side (tracker s)) = 0"
  shows "fst (check_stop_loss e s) = Returned
         \<and> tracker (snd (check_stop_loss e s)) =
             (tracker s)\<lparr>last_check := t_now e, side := Flat, size_held := 0,
                          temporarily_closed := False\<rparr>
         \<and> orders (snd (check_stop_loss e s)) = orders s
         \<and> check_reentry e' (snd (check_stop_loss e s)) = (Returned, snd (check_stop_loss e s))
         \<and> health e e' s = snd (check_stop_loss e s)
         \<and> ((\<forall>ev \<in> set evs. \<not> is_webhook ev) \<longrightarrow>
              run evs (snd (check_stop_loss e s)) = snd (check_stop_loss e s))"
proof -
  let ?s' = "s\<lparr>tracker := (tracker s)\<lparr>last_check := t_now e, side := Flat, size_held := 0,
                                        temporarily_closed := False\<rparr>,
                cache := \<lparr>cache_time = t_fetch e,
                          cache_data = Some (v_balance e, v_price e, v_long_size e,
                                             v_short_size e)\<rparr>\<rparr>"
  have thr: "\<not> t_now e - last_check (tracker s) < 0.5"
    using throttle by simp
  have ven: "(if side (tracker s) = Long then v_long_size e else v_short_size e) = 0"
    using venue by (simp add: venue_size_def)
  have r: "check_stop_loss e s = (Returned, ?s')"
    using active sd sz price ven thr
    by (simp add: check_stop_loss_def get_cached_data_fresh [OF fresh] Let_def)
  have idle: "\<not> tradingview_active (tracker ?s') \<or>
              (side (tracker ?s') = Flat \<and> \<not> temporarily_closed (tracker ?s'))"
    by simp
  have re: "check_reentry e' ?s' = (Returned, ?s')"
    by (simp add: check_reentry_def)
  have tp: "check_trailing_profit e' ?s' = (Returned, ?s')"
    by (simp add: check_trailing_profit_def)
  have h: "health e e' s = ?s'"
    using active by (simp add: health_def r tp)
  have quiet: "(\<forall>ev \<in> set evs. \<not> is_webhook ev) \<longrightarrow> run evs ?s' = ?s'"
    using idle_run [OF idle] by blast
  show ?thesis
    unfolding r h using re quiet by simp
qed

theorem stop_loss_clears_locked_witness:
  "tradingview_active (tracker (run ex_locked init_state))
   \<and> temporarily_closed (tracker (run ex_locked init_state))
   \<and> side (tracker (run ex_locked init_state)) = Long
   \<and> size_held (tracker (run ex_locked init_state)) = 3840
   \<and> venue_size (tick 1030 (101 / 100) 0 True) Long = 0
   \<and> side (tracker (snd (check_stop_loss (tick 1030 (101 / 100) 0 True)
                           (run ex_locked init_state)))) = Flat
   \<and> size_held (tracker (snd (check_stop_loss (tick 1030 (101 / 100) 0 True)
                           (run ex_locked init_state)))) = 0
   \<and> \<not> temporarily_closed (tracker (snd (check_stop_loss (tick 1030 (101 / 100) 0 True)
                           (run ex_locked init_state))))
   \<and> orders (snd (check_stop_loss (tick 1030 (101 / 100) 0 True) (run ex_locked init_state))) =
       orders (run ex_locked init_state)
   \<and> health (tick 1030 (101 / 100) 0 True) (tick 1030 (101 / 100) 0 True)
        (run ex_locked init_state) =
       snd (check_stop_loss (tick 1030 (101 / 100) 0 True) (run ex_locked init_state))
   \<and> run [ev_reenter, Health (tick 1040 (101 / 100) 0 True) (tick 1040 (101 / 100) 0 True)]
        (snd (check_stop_loss (tick 1030 (101 / 100) 0 True) (run ex_locked init_state))) =
       snd (check_stop_loss (tick 1030 (101 / 100) 0 True) (run ex_locked init_state))"
proof -
  let ?e = "tick 1030 (101 / 100) 0 True"
  let ?s = "run ex_locked init_state"
  let ?evs = "[ev_reenter, Health (tick 1040 (101 / 100) 0 True) (tick 1040 (101 / 100) 0 True)]"
  have s: "?s = ex_locked_state"
    by (rule ex_locked_run)
  have h1: "tradingview_active (tracker ?s)"
    and h2: "temporarily_closed (tracker ?s)"
    and h3: "side (tracker ?s) \<noteq> Flat"
    and h4: "0 < size_held (tracker ?s)"
    and h5: "0.5 \<le> t_now ?e - last_check (tracker ?s)"
    and h6: "CACHE_TTL \<le> t_fetch ?e"
    and h7: "0 < v_price ?e"
    and h8: "venue_size ?e (side (tracker ?s)) = 0"
    by (simp_all add: s ex_state_defs tick_def venue_size_def CACHE_TTL_def)
  have quiet: "\<forall>ev \<in> set ?evs. \<not> is_webhook ev"
    by (simp add: ev_reenter_def)
  have facts: "tradingview_active (tracker ?s) \<and> temporarily_closed (tracker ?s)
      \<and> side (tracker ?s) = Long \<and> size_held (tracker ?s) = 3840 \<and> venue_size ?e Long = 0"
    by (simp add: s ex_state_defs tick_def venue_size_def)
  show ?thesis
    using facts quiet
      stop_loss_clears_locked [OF h1 h2 h3 h4 h5 h6 h7 h8, of ?e ?evs]
    by simp
qed

subsection \<open>The flat signal\<close>








subsection \<open>The attempt counter\<close>

lemma close_order_plain [simp]: "\<not> o_is_reentry (close_order sd sz)"
  by (simp add: close_order_def)

lemma check_stop_loss_reentry_orders:
  "reentry_orders (snd (check_stop_loss e s)) = reentry_orders s"
proof -
  obtain b p l sh c where
    g: "get_cached_data e (invalidate (s\<lparr>tracker := (tracker s)\<lparr>last_check := t_now e\<rparr>\<rparr>)) =
          ((b, p, l, sh), s\<lparr>tracker := (tracker s)\<lparr>last_check := t_now e\<rparr>\<rparr>\<lparr>cache := c\<rparr>)"
    by (rule get_cached_data_shape)
  show ?thesis
    by (simp add: check_stop_loss_def g close_position_market_eq reentry_orders_def Let_def
        split: bool.split)
qed

text \<open>An open that is not a re-entry sends no re-entry request; when it succeeds it sets
  the attempt counter to 0 and tracks a side, and otherwise it leaves the tracker as it
  is.\<close>

lemma open_position_market_plain:
  "reentry_orders (snd (open_position_market e oside sz False s)) = reentry_orders s"
  "reentry_attempts (tracker (snd (open_position_market e oside sz is_re s))) =
     (if fst (open_position_market e oside sz is_re s) then 0
      else reentry_attempts (tracker s))"
  "side (tracker (snd (open_position_market e oside sz is_re s))) =
     (if fst (open_position_market e oside sz is_re s)
      then (if oside = Buy then Long else Short)
      else side (tracker s))"
  by (simp_all add: open_position_market_def reentry_orders_def Let_def)

lemma close_position_market_frame:
  "reentry_orders (snd (close_position_market e sd s)) = reentry_orders s"
  "tracker (snd (close_position_market e sd s)) = tracker s"
  by (simp_all add: close_position_market_eq reentry_orders_def)

lemma reentry_orders_frame:
  "reentry_orders (s\<lparr>tracker := t\<rparr>) = reentry_orders s"
  "reentry_orders (s\<lparr>cache := c\<rparr>) = reentry_orders s"
  "reentry_orders (s\<lparr>last_webhook := w\<rparr>) = reentry_orders s"
  by (simp_all add: reentry_orders_def)

lemmas plain_simps =
  open_position_market_plain close_position_market_frame reentry_orders_frame

lemma webhook_long_plain:
  "reentry_orders (snd (webhook_long e b p l sh s)) = reentry_orders s"
  "reentry_attempts (tracker (snd (webhook_long e b p l sh s))) = reentry_attempts (tracker s) \<or>
   reentry_attempts (tracker (snd (webhook_long e b p l sh s))) = 0 \<and>
   side (tracker (snd (webhook_long e b p l sh s))) \<noteq> Flat"
  by (simp_all add: webhook_long_def Let_def plain_simps split: sum.split)

lemma webhook_short_plain:
  "reentry_orders (snd (webhook_short e b p l sh s)) = reentry_orders s"
  "reentry_attempts (tracker (snd (webhook_short e b p l sh s))) = reentry_attempts (tracker s) \<or>
   reentry_attempts (tracker (snd (webhook_short e b p l sh s))) = 0 \<and>
   side (tracker (snd (webhook_short e b p l sh s))) \<noteq> Flat"
  by (simp_all add: webhook_short_def Let_def plain_simps split: sum.split)

lemma webhook_flat_plain:
  "reentry_orders (snd (webhook_flat e l sh s)) = reentry_orders s"
  "reentry_attempts (tracker (snd (webhook_flat e l sh s))) = reentry_attempts (tracker s)"
  by (simp_all add: webhook_flat_def Let_def plain_simps)

lemma webhook_dispatch_plain:
  "reentry_orders (snd (webhook_dispatch m e s)) = reentry_orders s"
  "reentry_attempts (tracker (snd (webhook_dispatch m e s))) = reentry_attempts (tracker s) \<or>
   reentry_attempts (tracker (snd (webhook_dispatch m e s))) = 0 \<and>
   side (tracker (snd (webhook_dispatch m e s))) \<noteq> Flat"
proof -
  let ?s1 = "s\<lparr>tracker := (tracker s)\<lparr>tv_position := m\<rparr>\<rparr>"
  obtain b p l sh c where
    g: "get_cached_data e (invalidate ?s1) = ((b, p, l, sh), ?s1\<lparr>cache := c\<rparr>)"
    by (rule get_cached_data_shape)
  have ra: "reentry_attempts (tracker (s\<lparr>tracker := (tracker s)\<lparr>tv_position := m'\<rparr>,
                                             cache := c\<rparr>)) =
            reentry_attempts (tracker s)" for m'
    by simp
  show "reentry_orders (snd (webhook_dispatch m e s)) = reentry_orders s"
    by (simp add: webhook_dispatch_def g Let_def webhook_long_plain(1) webhook_short_plain(1)
        webhook_flat_plain plain_simps)
  show "reentry_attempts (tracker (snd (webhook_dispatch m e s))) =
          reentry_attempts (tracker s) \<or>
        reentry_attempts (tracker (snd (webhook_dispatch m e s))) = 0 \<and>
        side (tracker (snd (webhook_dispatch m e s))) \<noteq> Flat"
    using webhook_long_plain(2) [of e b p l sh "s\<lparr>tracker := (tracker s)\<lparr>tv_position := m'\<rparr>,
                                                   cache := c\<rparr>" for m']
      webhook_short_plain(2) [of e b p l sh "s\<lparr>tracker := (tracker s)\<lparr>tv_position := m'\<rparr>,
                                                   cache := c\<rparr>" for m']
    unfolding ra
    by (simp add: webhook_dispatch_def g Let_def webhook_flat_plain)
qed

lemma webhook_plain:
  "reentry_orders (snd (webhook r e s)) = reentry_orders s"
  "reentry_attempts (tracker (snd (webhook r e s))) = reentry_attempts (tracker s) \<or>
   reentry_attempts (tracker (snd (webhook r e s))) = 0 \<and>
   side (tracker (snd (webhook r e s))) \<noteq> Flat"
proof -
  have b: "reentry_attempts (tracker (snd (webhook_dispatch m e (s\<lparr>last_webhook := w\<rparr>)))) =
             reentry_attempts (tracker s) \<or>
           reentry_attempts (tracker (snd (webhook_dispatch m e (s\<lparr>last_webhook := w\<rparr>)))) = 0 \<and>
           side (tracker (snd (webhook_dispatch m e (s\<lparr>last_webhook := w\<rparr>)))) \<noteq> Flat" for m w
    using webhook_dispatch_plain(2) [of m e "s\<lparr>last_webhook := w\<rparr>"] by simp
  show "reentry_orders (snd (webhook r e s)) = reentry_orders s"
    by (cases r)
      (simp_all add: webhook_def Let_def webhook_dispatch_plain(1) plain_simps split: sum.split)
  show "reentry_attempts (tracker (snd (webhook r e s))) = reentry_attempts (tracker s) \<or>
        reentry_attempts (tracker (snd (webhook r e s))) = 0 \<and>
        side (tracker (snd (webhook r e s))) \<noteq> Flat"
    using b by (cases r) (simp_all add: webhook_def Let_def split: sum.split)
qed

text \<open>With the counter at 3 a reachable state is temporarily closed or tracks no side;
  there the trailing-profit check does nothing.\<close>

lemma exhausted_trailing:
  assumes "reentry_attempts (tracker s) = 3"
    and "side (tracker s) = Flat \<or> temporarily_closed (tracker s)"
  shows "check_trailing_profit e s = (Returned, s)"
  using assms by (auto simp: check_trailing_profit_def check_reentry_def)

lemma exhausted_health:
  assumes three: "reentry_attempts (tracker s) = 3"
    and phase: "side (tracker s) = Flat \<or> temporarily_closed (tracker s)"
  shows "reentry_orders (health e1 e2 s) = reentry_orders s
         \<and> reentry_attempts (tracker (health e1 e2 s)) = 3"
proof -
  obtain r s1 where r: "check_stop_loss e1 s = (r, s1)"
    by (cases "check_stop_loss e1 s")
  have ro: "reentry_orders s1 = reentry_orders s"
    using check_stop_loss_reentry_orders [of e1 s] r by simp
  have shape: "tracker s1 = tracker s \<or> tracker s1 = (tracker s)\<lparr>last_check := t_now e1\<rparr> \<or>
      tracker s1 = (tracker s)\<lparr>last_check := t_now e1, side := Flat, size_held := 0,
                                temporarily_closed := False\<rparr>"
    using check_stop_loss_tracker [of e1 s] r by simp
  then have three1: "reentry_attempts (tracker s1) = 3"
    using three by auto
  have phase1: "side (tracker s1) = Flat \<or> temporarily_closed (tracker s1)"
    using shape phase by auto
  have "check_trailing_profit e2 s1 = (Returned, s1)"
    by (rule exhausted_trailing [OF three1 phase1])
  then show ?thesis
    using r ro three three1 by (simp add: health_def split: completion.split)
qed

text \<open>
  Claim C8, as amended. In every state reached from the initial state by webhooks, health
  ticks and calls of the risk engine, the attempt counter is between 0 and 3. Once it
  equals 3 the re-entry check does nothing, no event sends a re-entry request, and no
  health tick or call of the risk engine changes the counter; a webhook either leaves it
  at 3 or resets it to 0 by opening a position, which any accepted long or short signal
  that opens does, with or without a flat signal before it.
\<close>

theorem reentry_attempts_bounded:
  "0 \<le> reentry_attempts (tracker (run evs init_state))
   \<and> reentry_attempts (tracker (run evs init_state)) \<le> 3
   \<and> (reentry_attempts (tracker (run evs init_state)) = 3 \<longrightarrow>
        check_reentry e (run evs init_state) = (Returned, run evs init_state)
        \<and> reentry_orders (step ev (run evs init_state)) = reentry_orders (run evs init_state)
        \<and> (reentry_attempts (tracker (step ev (run evs init_state))) = 3
           \<or> is_webhook ev
             \<and> reentry_attempts (tracker (step ev (run evs init_state))) = 0
             \<and> side (tracker (step ev (run evs init_state))) \<noteq> Flat))"
proof -
  let ?s = "run evs init_state"
  have ok: "tracker_ok ?s"
    by (rule run_tracker_ok)
  then have bounds: "0 \<le> reentry_attempts (tracker ?s)" "reentry_attempts (tracker ?s) \<le> 3"
    by (simp_all add: tracker_ok_def)
  have rest: "check_reentry e ?s = (Returned, ?s)
        \<and> reentry_orders (step ev ?s) = reentry_orders ?s
        \<and> (reentry_attempts (tracker (step ev ?s)) = 3
           \<or> is_webhook ev \<and> reentry_attempts (tracker (step ev ?s)) = 0
             \<and> side (tracker (step ev ?s)) \<noteq> Flat)"
    if three: "reentry_attempts (tracker ?s) = 3"
  proof -
    have phase: "side (tracker ?s) = Flat \<or> temporarily_closed (tracker ?s)"
      using ok three by (auto simp: tracker_ok_def)
    have re: "check_reentry e' ?s = (Returned, ?s)" for e'
      using three by (simp add: check_reentry_def)
    have tp: "check_trailing_profit e' ?s = (Returned, ?s)" for e'
      by (rule exhausted_trailing [OF three phase])
    have st: "reentry_orders (step ev ?s) = reentry_orders ?s
        \<and> (reentry_attempts (tracker (step ev ?s)) = 3
           \<or> is_webhook ev \<and> reentry_attempts (tracker (step ev ?s)) = 0
             \<and> side (tracker (step ev ?s)) \<noteq> Flat)"
    proof (cases ev)
      case (Webhook r e')
      then show ?thesis
        using webhook_plain [of r e' ?s] three by auto
    next
      case (Health e1 e2)
      then show ?thesis
        using exhausted_health [OF three phase, of e1 e2] by simp
    next
      case (StopLoss e')
      then show ?thesis
        using check_stop_loss_reentry_orders [of e' ?s] check_stop_loss_tracker [of e' ?s] three
        by auto
    next
      case (TrailingProfit e')
      then show ?thesis
        using tp three by simp
    next
      case (Reentry e')
      then show ?thesis
        using re three by simp
    qed
    show ?thesis
      using re st by simp
  qed
  show ?thesis
    using bounds rest by blast
qed


lemma ex_exhausted_run:
  "run ex_exhausted init_state =
     ex_locked_state
       \<lparr>tracker := (tracker ex_locked_state)\<lparr>reentry_attempts := 3\<rparr>,
        cache := \<lparr>cache_time = 1030, cache_data = Some (1, 101 / 100, 0, 0)\<rparr>\<rparr>"
  by (simp add: ex_exhausted_def run_append ex_locked_run ev_decline_def low_balance_def
      check_reentry_def venue_defs ex_state_defs tick_def config_defs Let_def)

lemma ex_reopened_run:
  "run (ex_exhausted @ [ev_reopen]) init_state =
     \<lparr>tracker = \<lparr>entry_price = 101 / 100, side = Long, size_held = 3802,
                 stop_loss_price = 39693 / 40000, last_check = 0,
                 peak_profit_percent = 5764607523034235 / 576460752303423488,
                 temporarily_closed = False,
                 reentry_price = 201 / 200, reentry_attempts = 0,
                 last_trailing_action = 1040, tradingview_active = True,
                 tv_position = ''long''\<rparr>,
      cache = \<lparr>cache_time = 1040, cache_data = Some (1000, 101 / 100, 0, 0)\<rparr>,
      last_webhook = \<lparr>lw_time = 1040, lw_data = Some ''long/long''\<rparr>,
      orders = [open_order Long 3840 False, close_order Long 3840,
                open_order Long 3802 False]\<rparr>"
  by (simp add: run_append ex_exhausted_run ev_reopen_def webhook_def webhook_dispatch_def
      webhook_long_def get_lower_def lower_long venue_defs ex_state_defs signal_def tick_def
      open_order_def close_order_def py_round_def py_int_def config_defs Let_def)

lemma fl_values_again:
  "fl (1 / 500) = 1152921504606847 / 576460752303423488"
  "fl (28823037615171175 / 14555633995661443072) = 1141506440204799 / 576460752303423488"
  "fl (1155775270707359 / 144115188075855872) = 1155775270707359 / 144115188075855872"
  "fl (4623101082829436 / 5764607523034235) = 3611797720960497 / 4503599627370496"
proof -
  show "fl (1 / 500) = 1152921504606847 / 576460752303423488"
    by (subst fl_below_two [where n = 9]) (simp_all add: py_round_def)
  show "fl (28823037615171175 / 14555633995661443072) =
        1141506440204799 / 576460752303423488"
    by (subst fl_below_two [where n = 9]) (simp_all add: py_round_def)
  show "fl (1155775270707359 / 144115188075855872) = 1155775270707359 / 144115188075855872"
    by (subst fl_below_two [where n = 7]) (simp_all add: py_round_def)
  show "fl (4623101082829436 / 5764607523034235) = 3611797720960497 / 4503599627370496"
    by (subst fl_below_two [where n = 1]) (simp_all add: py_round_def)
qed

lemma ex_again_run:
  "reentry_orders (run (ex_exhausted @ ex_again) init_state) = [open_order Long 3765 True]"
proof -
  have "run (ex_exhausted @ ex_again) init_state =
        run [ev_lock_again, ev_reenter_again] (run (ex_exhausted @ [ev_reopen]) init_state)"
    by (simp add: ex_again_def run_append)
  then show ?thesis
    unfolding ex_reopened_run
    by (simp add: ev_lock_again_def ev_reenter_again_def check_trailing_profit_def
        check_reentry_def venue_defs tick_def reentry_orders_def open_order_def close_order_def
        py_round_def py_int_def config_defs fl_values_again Let_def)
qed

theorem reentry_attempts_bounded_witness:
  "reentry_attempts (tracker (run ex_exhausted init_state)) = 3
   \<and> check_reentry (tick 1035 (101 / 100) 0 True) (run ex_exhausted init_state) =
       (Returned, run ex_exhausted init_state)
   \<and> reentry_orders (step ev_reopen (run ex_exhausted init_state)) =
       reentry_orders (run ex_exhausted init_state)
   \<and> is_webhook ev_reopen
   \<and> reentry_attempts (tracker (step ev_reopen (run ex_exhausted init_state))) = 0
   \<and> side (tracker (step ev_reopen (run ex_exhausted init_state))) = Long"
proof -
  have three: "reentry_attempts (tracker (run ex_exhausted init_state)) = 3"
    by (simp add: ex_exhausted_run)
  have after: "step ev_reopen (run ex_exhausted init_state) =
               run (ex_exhausted @ [ev_reopen]) init_state"
    by (simp add: run_append)
  have zero: "reentry_attempts (tracker (step ev_reopen (run ex_exhausted init_state))) = 0"
    "side (tracker (step ev_reopen (run ex_exhausted init_state))) = Long"
    unfolding after ex_reopened_run by simp_all
  show ?thesis
    using three zero
      reentry_attempts_bounded [of ex_exhausted "tick 1035 (101 / 100) 0 True" ev_reopen]
    by (simp add: ev_reopen_def)
qed

text \<open>The claim as written, where only a cycle from a flat to a directional signal
  resets the counter, fails on the example run: after three declined attempts the counter is
  3; a second long signal, with no flat signal anywhere in the run, opens again and resets
  it to 0, and after the next trailing close a re-entry request is sent.\<close>

theorem reentry_reset_counterexample:
  "reentry_attempts (tracker (run ex_exhausted init_state)) = 3
   \<and> reentry_orders (run ex_exhausted init_state) = []
   \<and> filter is_flat_signal (ex_exhausted @ ex_again) = []
   \<and> reentry_attempts (tracker (run (ex_exhausted @ [ev_reopen]) init_state)) = 0
   \<and> reentry_orders (run (ex_exhausted @ ex_again) init_state) = [open_order Long 3765 True]"
proof -
  have "filter is_flat_signal (ex_exhausted @ ex_again) = []"
    by (simp add: ex_exhausted_def ex_again_def ex_locked_def ex_peak_def ex_open_def
        ev_open_def ev_peak_def ev_lock_def ev_decline_def ev_reopen_def ev_lock_again_def
        ev_reenter_again_def signal_def get_lower_def lower_long)
  moreover have "reentry_orders (run ex_exhausted init_state) = []"
    by (simp add: ex_exhausted_run ex_state_defs reentry_orders_def open_order_def
        close_order_def)
  ultimately show ?thesis
    by (simp add: ex_exhausted_run ex_reopened_run ex_again_run)
qed

end
